theory Spec2Isabelle
  imports Main
begin

section \<open>Python values used by the search service\<close>

text \<open>
  Exceptions are values. Every exception below is a subclass of Python's \<open>Exception\<close>,
  so each of them is caught by an \<open>except Exception\<close> clause.
  \<^item> \<open>AttributeError cls name\<close>: attribute \<open>name\<close> looked up on an object of class \<open>cls\<close>
    that does not have it;
  \<^item> \<open>KeyError k\<close>: the dictionary \<open>chunk_mapping\<close> indexed with an ordinal it does not hold;
  \<^item> \<open>IndexError\<close>: a sequence indexed out of range;
  \<^item> \<open>DatabaseError msg\<close>: an error raised by the database cursor;
  \<^item> \<open>ExternalError msg\<close>: an error raised by the embedding model, the vector index or
    the experts manager.
\<close>

datatype py_exception =
    AttributeError string string
  | KeyError int
  | IndexError
  | DatabaseError string
  | ExternalError string

text \<open>\<open>HTTPException(status_code=500, detail=str(e))\<close>: the detail is kept as the exception.\<close>

datatype http_exception = HTTPException nat py_exception

text \<open>What the endpoints and the database manager write through \<open>logging\<close>, and the
  calls to the two prediction sources that \<open>predict_queries\<close> starts.\<close>

datatype event = LogInfo | LogWarning | LogError | DbFetch string int | EngineFetch string int

fun is_fetch :: "event \<Rightarrow> bool" where
  "is_fetch (DbFetch q n) = True"
| "is_fetch (EngineFetch q n) = True"
| "is_fetch e = False"

text \<open>The slice \<open>xs[:stop]\<close>: a negative \<open>stop\<close> counts from the end of the list.\<close>

definition py_slice_to :: "'a list \<Rightarrow> int \<Rightarrow> 'a list" where
  "py_slice_to xs stop =
     (if 0 \<le> stop then take (nat stop) xs else take (nat (int (length xs) + stop)) xs)"

section \<open>Objects and their attributes\<close>

text \<open>
  The attributes of a \<open>DatabaseManager\<close> instance: the two set in \<open>__init__\<close> and every
  method the class body of \<open>database_manager.py\<close> defines, in source order.
\<close>

definition DatabaseManager_attrs :: "string list" where
  "DatabaseManager_attrs =
     [''conn'', ''cur'', ''__init__'', ''execute'', ''add_expert'', ''add_publication'',
      ''add_author'', ''add_tag'', ''link_author_publication'', ''link_publication_tag'',
      ''update_expert'', ''get_expert_by_name'', ''get_recent_queries'',
      ''get_term_frequencies'', ''get_popular_queries'', ''get_user_queries'', ''add_query'',
      ''record_search_analytics'', ''record_expert_search'', ''record_query_prediction'',
      ''start_search_session'', ''update_search_session'', ''record_click'',
      ''get_search_metrics'', ''get_expert_metrics'', ''get_performance_metrics'', ''close'',
      ''__del__'']"

text \<open>The attributes of a \<open>SearchEngine\<close> instance (\<open>search_engine.py\<close>).\<close>

definition SearchEngine_attrs :: "string list" where
  "SearchEngine_attrs =
     [''embedding_model'', ''index_path'', ''mapping_path'', ''index'', ''chunk_mapping'',
      ''experts_manager'', ''__init__'', ''search'', ''get_summary_by_title'',
      ''search_by_title'']"

text \<open>
  An object as \<open>predict_queries\<close> uses it: its class name, the names of its attributes, and
  what a method of a given name returns for \<open>(partial_query, limit)\<close> when the object has it.
\<close>

record py_object =
  class_name :: string
  attr_names :: "string list"
  method_impl :: "string \<Rightarrow> string \<Rightarrow> int \<Rightarrow> py_exception + string list"

text \<open>\<open>obj.name(partial_query=..., limit=...)\<close>: the attribute lookup raises AttributeError
  when the object has no attribute of that name; otherwise the method runs.\<close>

definition invoke :: "py_object \<Rightarrow> string \<Rightarrow> string \<Rightarrow> int \<Rightarrow> py_exception + string list" where
  "invoke obj name partial_query limit =
     (if name \<in> set (attr_names obj) then method_impl obj name partial_query limit
      else Inl (AttributeError (class_name obj) name))"

text \<open>The module-level \<open>db_manager = DatabaseManager()\<close> and \<open>search_engine = SearchEngine()\<close>
  of \<open>endpoints/search.py\<close>; \<open>m\<close> gives the behaviour of the methods the classes define.\<close>

definition db_manager :: "(string \<Rightarrow> string \<Rightarrow> int \<Rightarrow> py_exception + string list) \<Rightarrow> py_object" where
  "db_manager m =
     \<lparr>class_name = ''DatabaseManager'', attr_names = DatabaseManager_attrs, method_impl = m\<rparr>"

definition search_engine :: "(string \<Rightarrow> string \<Rightarrow> int \<Rightarrow> py_exception + string list) \<Rightarrow> py_object" where
  "search_engine m =
     \<lparr>class_name = ''SearchEngine'', attr_names = SearchEngine_attrs, method_impl = m\<rparr>"

section \<open>The predict endpoint\<close>

text \<open>
  \<open>pred.lower()\<close> is Python's built-in lower-casing of a string, which folds the letters
  of every script, not only A to Z. It is not code of the repository, so the functions below
  take it as the parameter \<open>lower\<close>, and what is proved of them holds for whatever the
  built-in computes.
\<close>

text \<open>The first loop of \<open>predict_queries\<close>: database predictions, each appended unless its
  lower-cased form is in \<open>seen\<close>. The state is \<open>(all_predictions, seen)\<close>.\<close>

fun add_db_predictions ::
  "(string \<Rightarrow> string) \<Rightarrow> string list \<Rightarrow> string list \<times> string set \<Rightarrow> string list \<times> string set" where
  "add_db_predictions lower [] (all_predictions, seen) = (all_predictions, seen)"
| "add_db_predictions lower (pred # rest) (all_predictions, seen) =
     (if lower pred \<notin> seen
      then add_db_predictions lower rest (all_predictions @ [pred], insert (lower pred) seen)
      else add_db_predictions lower rest (all_predictions, seen))"

text \<open>The second loop: search-engine predictions, each appended unless its lower-cased form
  is in \<open>seen\<close> or the list already has \<open>limit\<close> entries.\<close>

fun add_search_predictions ::
  "(string \<Rightarrow> string) \<Rightarrow> int \<Rightarrow> string list \<Rightarrow> string list \<times> string set \<Rightarrow> string list \<times> string set" where
  "add_search_predictions lower limit [] (all_predictions, seen) = (all_predictions, seen)"
| "add_search_predictions lower limit (pred # rest) (all_predictions, seen) =
     (if lower pred \<notin> seen \<and> int (length all_predictions) < limit
      then add_search_predictions lower limit rest
             (all_predictions @ [pred], insert (lower pred) seen)
      else add_search_predictions lower limit rest (all_predictions, seen))"

text \<open>Lines 54 to 71 of \<open>endpoints/search.py\<close>: both loops from the empty list and the empty
  set, then \<open>all_predictions[:limit]\<close>.\<close>

definition merge_predictions ::
  "(string \<Rightarrow> string) \<Rightarrow> string list \<Rightarrow> string list \<Rightarrow> int \<Rightarrow> string list" where
  "merge_predictions lower db_predictions search_predictions limit =
     py_slice_to
       (fst (add_search_predictions lower limit search_predictions
               (add_db_predictions lower db_predictions ([], {}))))
       limit"

text \<open>
  \<open>predict_queries(partial_query, limit)\<close>. The result is the response (the list, or the
  HTTPException raised to the caller) and the events in the order they happen.
\<close>

definition predict_queries ::
  "(string \<Rightarrow> string) \<Rightarrow> py_object \<Rightarrow> py_object \<Rightarrow> string \<Rightarrow> int \<Rightarrow> (http_exception + string list) \<times> event list" where
  "predict_queries lower db eng partial_query limit =
     (if length partial_query < 2 then (Inr [], [LogInfo])
      else
        (case invoke db ''get_matching_queries'' partial_query limit of
           Inl e \<Rightarrow>
             (Inl (HTTPException 500 e), [LogInfo, DbFetch partial_query limit, LogError])
         | Inr db_predictions \<Rightarrow>
             (case invoke eng ''predict_queries'' partial_query limit of
                Inl e \<Rightarrow>
                  (Inr (merge_predictions lower db_predictions [] limit),
                   [LogInfo, DbFetch partial_query limit, LogInfo,
                    EngineFetch partial_query limit, LogWarning, LogInfo])
              | Inr search_predictions \<Rightarrow>
                  (Inr (merge_predictions lower db_predictions search_predictions limit),
                   [LogInfo, DbFetch partial_query limit, LogInfo,
                    EngineFetch partial_query limit, LogInfo, LogInfo]))))"

text \<open>
  The merge as the specification words it, for comparison with \<open>merge_predictions\<close>: the
  database matches are appended first, all of them, in their returned order; then each
  engine match is appended unless its lower-cased form already appears or the list has
  reached \<open>limit\<close>; the final list is truncated to \<open>limit\<close>.
\<close>

fun append_engine_matches ::
  "(string \<Rightarrow> string) \<Rightarrow> int \<Rightarrow> string list \<Rightarrow> string list \<Rightarrow> string list" where
  "append_engine_matches lower limit [] acc = acc"
| "append_engine_matches lower limit (p # ps) acc =
     (if lower p \<in> lower ` set acc \<or> limit \<le> int (length acc)
      then append_engine_matches lower limit ps acc
      else append_engine_matches lower limit ps (acc @ [p]))"

definition specified_merge ::
  "(string \<Rightarrow> string) \<Rightarrow> string list \<Rightarrow> string list \<Rightarrow> int \<Rightarrow> string list" where
  "specified_merge lower db_matches engine_matches limit =
     take (nat limit) (append_engine_matches lower limit engine_matches db_matches)"

text \<open>
  Deduplication on the lower-cased string, keeping the first-seen variant with its original
  casing: an entry is dropped when its lower-cased form is in \<open>seen\<close> or was the key of an
  earlier entry.
\<close>

fun dedup_first_seen :: "(string \<Rightarrow> string) \<Rightarrow> string set \<Rightarrow> string list \<Rightarrow> string list" where
  "dedup_first_seen lower seen [] = []"
| "dedup_first_seen lower seen (p # ps) =
     (if lower p \<in> seen then dedup_first_seen lower seen ps
      else p # dedup_first_seen lower (insert (lower p) seen) ps)"

section \<open>SearchEngine.search\<close>

text \<open>\<open>d.get(key, default)\<close> on a dictionary.\<close>

definition dict_get :: "('k \<rightharpoonup> 'v) \<Rightarrow> 'k \<Rightarrow> 'v \<Rightarrow> 'v" where
  "dict_get d key dflt = (case d key of Some v \<Rightarrow> v | None \<Rightarrow> dflt)"

text \<open>One entry of the list \<open>search\<close> returns: the chunk's metadata dictionary, the score
  the index gave (of an uninterpreted type \<open>'s\<close>: the code only passes it on) and the
  experts kept for the chunk's domain.\<close>

record ('s, 'e) search_result =
  metadata :: "string \<rightharpoonup> string"
  similarity_score :: 's
  experts :: "'e list"

text \<open>
  What a \<open>SearchEngine\<close> instance holds. The embedding model, the vector index and the
  experts manager are libraries and modules outside the sources; each is a function that
  returns its value or raises. \<open>index_search v k\<close> stands for \<open>self.index.search(v, k)\<close> and
  returns the rows \<open>(I[0], D[0])\<close>. \<open>chunk_mapping\<close> is the unpickled dictionary from ordinal
  to metadata.
\<close>

record ('v, 's, 'e) SearchEngine =
  get_embedding :: "string \<Rightarrow> py_exception + 'v"
  index_search :: "'v \<Rightarrow> int \<Rightarrow> py_exception + int list \<times> 's list"
  chunk_mapping :: "int \<rightharpoonup> (string \<rightharpoonup> string)"
  find_experts_by_domain :: "string \<Rightarrow> py_exception + 'e list"

text \<open>The loop \<open>for idx, score in zip(I[0], D[0])\<close>, with \<open>results\<close> as accumulator.
  \<open>self.chunk_mapping[idx]\<close> raises KeyError for an ordinal that is not a key.\<close>

fun search_results ::
  "('v, 's, 'e) SearchEngine \<Rightarrow> (int \<times> 's) list \<Rightarrow> ('s, 'e) search_result list
     \<Rightarrow> py_exception + ('s, 'e) search_result list" where
  "search_results eng [] results = Inr results"
| "search_results eng ((idx, score) # rest) results =
     (case chunk_mapping eng idx of
        None \<Rightarrow> Inl (KeyError idx)
      | Some md \<Rightarrow>
          (case find_experts_by_domain eng (dict_get md ''Domain'' '' '') of
             Inl e \<Rightarrow> Inl e
           | Inr found \<Rightarrow>
               search_results eng rest
                 (results @ [\<lparr>metadata = md, similarity_score = score,
                              experts = take 3 found\<rparr>])))"

definition search ::
  "('v, 's, 'e) SearchEngine \<Rightarrow> string \<Rightarrow> int \<Rightarrow> py_exception + ('s, 'e) search_result list" where
  "search eng query k =
     (case get_embedding eng query of
        Inl e \<Rightarrow> Inl e
      | Inr query_vector \<Rightarrow>
          (case index_search eng query_vector k of
             Inl e \<Rightarrow> Inl e
           | Inr (I, D) \<Rightarrow> search_results eng (zip I D) []))"

text \<open>
  Modelled from the spec: the vector index is a library (faiss) that is not in the sources.
  The spec's VectorIndex answers \<open>search(vector, k)\<close> with the nearest ordinals in order and
  a sentinel "no match" ordinal where \<open>k\<close> exceeds the corpus size; the library fills such
  a slot with ordinal \<open>-1\<close>. \<open>ranked\<close> are the ordinals of the whole corpus, nearest first,
  \<open>dists\<close> their distances, and \<open>far\<close> the distance written into an unused slot.
\<close>

definition index_slots :: "int list \<Rightarrow> 's list \<Rightarrow> 's \<Rightarrow> int \<Rightarrow> int list \<times> 's list" where
  "index_slots ranked dists far k =
     (take (nat k) (ranked @ replicate (nat k - length ranked) (- 1)),
      take (nat k) (dists @ replicate (nat k - length ranked) far))"

section \<open>DatabaseManager\<close>

text \<open>
  The tables the analytics methods write, with the columns their SQL text names. A
  timestamp is a natural number.
\<close>

record search_log =
  sl_id :: int
  sl_clicked :: bool

record expert_search =
  es_search_id :: int
  es_expert_id :: string
  es_rank_position :: int
  es_clicked :: bool
  es_click_timestamp :: "nat option"

record search_session =
  ss_id :: int
  ss_query_count :: int
  ss_successful_searches :: int
  ss_end_timestamp :: "nat option"

record query_history =
  qh_query_id :: int
  qh_query :: string
  qh_result_count :: int
  qh_search_type :: string
  qh_user_id :: "string option"

record tables =
  search_logs :: "search_log list"
  expert_searches :: "expert_search list"
  search_sessions :: "search_session list"
  query_history_ai :: "query_history list"

text \<open>The SQL statements of \<open>add_query\<close>, \<open>update_search_session\<close> and \<open>record_click\<close>, with
  their parameters.\<close>

datatype statement =
    InsertQueryHistory string int string "string option"
  | UpdateSearchSession int int
  | UpdateSearchLogClicked int
  | UpdateExpertSearchClicked int string

text \<open>
  What a statement that succeeds does to the tables, and the rows it returns (\<open>None\<close> when
  it returns no result set, so that \<open>cur.description\<close> is \<open>None\<close>). \<open>now\<close> is the value of
  \<open>NOW()\<close>. The inserted row gets the next \<open>query_id\<close>, which \<open>RETURNING\<close> gives back.
\<close>

fun run_statement :: "nat \<Rightarrow> statement \<Rightarrow> tables \<Rightarrow> int list list option \<times> tables" where
  "run_statement now (InsertQueryHistory query result_count search_type user_id) t =
     (let query_id = int (length (query_history_ai t)) + 1 in
        (Some [[query_id]],
         t\<lparr>query_history_ai := query_history_ai t @
              [\<lparr>qh_query_id = query_id, qh_query = query, qh_result_count = result_count,
                qh_search_type = search_type, qh_user_id = user_id\<rparr>]\<rparr>))"
| "run_statement now (UpdateSearchSession successful session_id) t =
     (None,
      t\<lparr>search_sessions :=
           map (\<lambda>r. if ss_id r = session_id
                    then r\<lparr>ss_query_count := ss_query_count r + 1,
                           ss_successful_searches := ss_successful_searches r + successful,
                           ss_end_timestamp := Some now\<rparr>
                    else r)
               (search_sessions t)\<rparr>)"
| "run_statement now (UpdateSearchLogClicked search_id) t =
     (None,
      t\<lparr>search_logs :=
           map (\<lambda>r. if sl_id r = search_id then r\<lparr>sl_clicked := True\<rparr> else r)
               (search_logs t)\<rparr>)"
| "run_statement now (UpdateExpertSearchClicked search_id expert_id) t =
     (None,
      t\<lparr>expert_searches :=
           map (\<lambda>r. if es_search_id r = search_id \<and> es_expert_id r = expert_id
                    then r\<lparr>es_clicked := True, es_click_timestamp := Some now\<rparr>
                    else r)
               (expert_searches t)\<rparr>)"

text \<open>
  The state behind \<open>self.conn\<close> and \<open>self.cur\<close>: the committed tables, the tables as the
  open transaction sees them (\<open>None\<close> when no transaction is open), and the log.
\<close>

record db_state =
  committed :: tables
  open_txn :: "tables option"
  logged :: "event list"

definition snapshot :: "db_state \<Rightarrow> tables" where
  "snapshot s = (case open_txn s of None \<Rightarrow> committed s | Some t \<Rightarrow> t)"

text \<open>\<open>self.cur.execute(query, params)\<close>. The server is outside the sources: \<open>fault\<close> says
  for which statements it raises, and with what. A statement that runs opens a transaction
  when none is open and changes the tables that transaction sees.\<close>

definition cur_execute ::
  "(statement \<Rightarrow> py_exception option) \<Rightarrow> nat \<Rightarrow> statement \<Rightarrow> db_state
     \<Rightarrow> py_exception + (int list list option \<times> db_state)" where
  "cur_execute fault now stmt s =
     (case fault stmt of
        Some e \<Rightarrow> Inl e
      | None \<Rightarrow>
          (case run_statement now stmt (snapshot s) of
             (rows, t) \<Rightarrow> Inr (rows, s\<lparr>open_txn := Some t\<rparr>)))"

definition commit :: "db_state \<Rightarrow> db_state" where
  "commit s = s\<lparr>committed := snapshot s, open_txn := None\<rparr>"

definition rollback :: "db_state \<Rightarrow> db_state" where
  "rollback s = s\<lparr>open_txn := None\<rparr>"

definition log_event :: "event \<Rightarrow> db_state \<Rightarrow> db_state" where
  "log_event ev s = s\<lparr>logged := logged s @ [ev]\<rparr>"

text \<open>\<open>DatabaseManager.execute\<close>: run the statement and commit; on an exception roll back,
  log and raise again.\<close>

definition execute ::
  "(statement \<Rightarrow> py_exception option) \<Rightarrow> nat \<Rightarrow> statement \<Rightarrow> db_state
     \<Rightarrow> (py_exception + int list list) \<times> db_state" where
  "execute fault now stmt s =
     (case cur_execute fault now stmt s of
        Inl e \<Rightarrow> (Inl e, log_event LogError (rollback s))
      | Inr (rows, s') \<Rightarrow>
          (Inr (case rows of Some fetched \<Rightarrow> fetched | None \<Rightarrow> []), commit s'))"

text \<open>\<open>DatabaseManager.add_query\<close>: \<open>result[0][0] if result else None\<close>.\<close>

definition add_query ::
  "(statement \<Rightarrow> py_exception option) \<Rightarrow> nat \<Rightarrow> string \<Rightarrow> int \<Rightarrow> string \<Rightarrow> string option
     \<Rightarrow> db_state \<Rightarrow> (py_exception + int option) \<times> db_state" where
  "add_query fault now query result_count search_type user_id s =
     (case execute fault now (InsertQueryHistory query result_count search_type user_id) s of
        (Inl e, s') \<Rightarrow> (Inl e, log_event LogError s')
      | (Inr [], s') \<Rightarrow> (Inr None, s')
      | (Inr ([] # others), s') \<Rightarrow> (Inl IndexError, log_event LogError s')
      | (Inr ((query_id # cols) # others), s') \<Rightarrow> (Inr (Some query_id), s'))"

text \<open>\<open>DatabaseManager.update_search_session\<close>.\<close>

definition update_search_session ::
  "(statement \<Rightarrow> py_exception option) \<Rightarrow> nat \<Rightarrow> int \<Rightarrow> bool \<Rightarrow> db_state
     \<Rightarrow> (py_exception + unit) \<times> db_state" where
  "update_search_session fault now session_id successful s =
     (case execute fault now (UpdateSearchSession (if successful then 1 else 0) session_id) s of
        (Inl e, s') \<Rightarrow> (Inl e, log_event LogError s')
      | (Inr rows, s') \<Rightarrow> (Inr (), s'))"

text \<open>The truth value of \<open>expert_id\<close> in \<open>if expert_id:\<close>: \<open>None\<close> and the empty string are
  false.\<close>

fun truthy :: "string option \<Rightarrow> bool" where
  "truthy None = False"
| "truthy (Some s) = (s \<noteq> [])"

text \<open>\<open>DatabaseManager.record_click\<close>: two calls of \<open>execute\<close>, the second only for a true
  \<open>expert_id\<close>; an exception of either is logged and raised again.\<close>

definition record_click ::
  "(statement \<Rightarrow> py_exception option) \<Rightarrow> nat \<Rightarrow> int \<Rightarrow> string option \<Rightarrow> db_state
     \<Rightarrow> (py_exception + unit) \<times> db_state" where
  "record_click fault now search_id expert_id s =
     (case execute fault now (UpdateSearchLogClicked search_id) s of
        (Inl e, s1) \<Rightarrow> (Inl e, log_event LogError s1)
      | (Inr rows, s1) \<Rightarrow>
          (if truthy expert_id
           then (case execute fault now
                        (UpdateExpertSearchClicked search_id (the expert_id)) s1 of
                   (Inl e, s2) \<Rightarrow> (Inl e, log_event LogError s2)
                 | (Inr rows', s2) \<Rightarrow> (Inr (), s2))
           else (Inr (), s1)))"

section \<open>The search endpoint\<close>

datatype 's json_value = Str string | Num 's

text \<open>One dictionary of \<open>formatted_results\<close>, as its items in source order.\<close>

definition format_result :: "('s, 'e) search_result \<Rightarrow> (string \<times> 's json_value) list" where
  "format_result r =
     [(''title'', Str (dict_get (metadata r) ''title'' [])),
      (''abstract'', Str (dict_get (metadata r) ''abstract'' [])),
      (''summary'', Str (dict_get (metadata r) ''summary'' [])),
      (''tags'', Str (dict_get (metadata r) ''tags'' [])),
      (''authors'', Str (dict_get (metadata r) ''authors'' [])),
      (''similarity_score'', Num (similarity_score r))]"

text \<open>
  The \<open>search\<close> endpoint of \<open>endpoints/search.py\<close>: the engine's search, then \<open>add_query\<close>
  inside its own \<open>try\<close>, then the formatted results. An exception of the engine becomes an
  HTTPException with status 500.
\<close>

definition search_endpoint ::
  "('v, 's, 'e) SearchEngine \<Rightarrow> (statement \<Rightarrow> py_exception option) \<Rightarrow> nat \<Rightarrow> string \<Rightarrow> int
     \<Rightarrow> db_state \<Rightarrow> (http_exception + (string \<times> 's json_value) list list) \<times> db_state" where
  "search_endpoint eng fault now query limit s =
     (case search eng query limit of
        Inl e \<Rightarrow> (Inl (HTTPException 500 e), log_event LogError (log_event LogInfo s))
      | Inr results \<Rightarrow>
          (case add_query fault now query (int (length results)) ''semantic'' None
                  (log_event LogInfo s) of
             (Inl db_error, s') \<Rightarrow> (Inr (map format_result results), log_event LogError s')
           | (Inr query_id, s') \<Rightarrow> (Inr (map format_result results), log_event LogInfo s')))"

section \<open>Objects and states for concrete runs\<close>

text \<open>An object like \<open>obj\<close> that also has an attribute \<open>name\<close>, a method whose call has the
  given outcome.\<close>

definition with_method :: "py_object \<Rightarrow> string \<Rightarrow> (py_exception + string list) \<Rightarrow> py_object" where
  "with_method obj name outcome =
     obj\<lparr>attr_names := name # attr_names obj, method_impl := (\<lambda>n q l. outcome)\<rparr>"

text \<open>
  Lower-casing for the concrete runs below, whose strings are ASCII: the letters A to Z are
  mapped to a to z and every other character is kept. On a string of ASCII characters this
  is the value of \<open>str.lower()\<close>; on other strings it is not, and no run below uses it
  there.
\<close>

definition ascii_lower_char :: "char \<Rightarrow> char" where
  "ascii_lower_char c =
     (case map_of (zip ''ABCDEFGHIJKLMNOPQRSTUVWXYZ'' ''abcdefghijklmnopqrstuvwxyz'') c of
        Some d \<Rightarrow> d
      | None \<Rightarrow> c)"

definition ascii_lower :: "string \<Rightarrow> string" where
  "ascii_lower s = map ascii_lower_char s"

text \<open>The methods the two classes define take other arguments than the prediction methods;
  for a concrete run their behaviour is fixed to returning the empty list.\<close>

definition defined_methods :: "string \<Rightarrow> string \<Rightarrow> int \<Rightarrow> py_exception + string list" where
  "defined_methods name partial_query limit = Inr []"

text \<open>
  An engine over a corpus of two chunks. The index ranks chunk 1 before chunk 0 and fills
  the slots as \<open>index_slots\<close> says; the second chunk has no \<open>Domain\<close> entry.
\<close>

definition small_engine :: "(unit, nat, string) SearchEngine" where
  "small_engine =
     \<lparr>get_embedding = (\<lambda>q. Inr ()),
      index_search = (\<lambda>v k. Inr (index_slots [1, 0] [3, 8] 1000 k)),
      chunk_mapping =
        [0 \<mapsto> [''Title'' \<mapsto> ''Malaria vaccines'', ''Domain'' \<mapsto> ''Health''],
         1 \<mapsto> [''Title'' \<mapsto> ''Maize yields'']],
      find_experts_by_domain =
        (\<lambda>d. Inr (if d = ''Health'' then [''e1'', ''e2'', ''e3'', ''e4''] else [''e5'']))\<rparr>"

text \<open>A server on which every statement runs, one on which the update of
  \<open>expert_searches\<close> fails, and one on which the insert into \<open>query_history_ai\<close> fails.\<close>

definition no_fault :: "statement \<Rightarrow> py_exception option" where
  "no_fault stmt = None"

fun attribution_fault :: "statement \<Rightarrow> py_exception option" where
  "attribution_fault (UpdateExpertSearchClicked search_id expert_id) =
     Some (DatabaseError ''deadlock detected'')"
| "attribution_fault stmt = None"

fun insert_fault :: "statement \<Rightarrow> py_exception option" where
  "insert_fault (InsertQueryHistory query result_count search_type user_id) =
     Some (DatabaseError ''connection lost'')"
| "insert_fault stmt = None"

text \<open>A database with two searches, two attribution rows of search 1 (one of them with the
  empty string as expert id) and one session; no transaction is open.\<close>

definition analytics_state :: db_state where
  "analytics_state =
     \<lparr>committed =
        \<lparr>search_logs = [\<lparr>sl_id = 1, sl_clicked = False\<rparr>, \<lparr>sl_id = 2, sl_clicked = False\<rparr>],
         expert_searches =
           [\<lparr>es_search_id = 1, es_expert_id = ''e1'', es_rank_position = 0,
             es_clicked = False, es_click_timestamp = None\<rparr>,
            \<lparr>es_search_id = 1, es_expert_id = [], es_rank_position = 1,
             es_clicked = False, es_click_timestamp = None\<rparr>],
         search_sessions =
           [\<lparr>ss_id = 1, ss_query_count = 0, ss_successful_searches = 0,
             ss_end_timestamp = None\<rparr>],
         query_history_ai = []\<rparr>,
      open_txn = None,
      logged = []\<rparr>"

section \<open>The two loops of the merge\<close>

lemma add_db_predictions_eq:
  "add_db_predictions lower ps (acc, seen) =
     (acc @ dedup_first_seen lower seen ps, seen \<union> lower ` set ps)"
  by (induction ps arbitrary: acc seen) auto

lemma add_search_predictions_fst:
  "fst (add_search_predictions lower limit ps (acc, seen)) =
     acc @ take (nat limit - length acc) (dedup_first_seen lower seen ps)"
proof (induction ps arbitrary: acc seen)
  case Nil
  show ?case by simp
next
  case (Cons p ps)
  show ?case
  proof (cases "lower p \<in> seen")
    case True
    then show ?thesis using Cons.IH by simp
  next
    case unseen: False
    show ?thesis
    proof (cases "int (length acc) < limit")
      case True
      then have "nat limit - length acc = Suc (nat limit - Suc (length acc))" by linarith
      then show ?thesis using unseen True Cons.IH by simp
    next
      case False
      then have "nat limit - length acc = 0" by linarith
      then show ?thesis using unseen False Cons.IH by simp
    qed
  qed
qed

lemma dedup_first_seen_append:
  "dedup_first_seen lower seen (xs @ ys) =
     dedup_first_seen lower seen xs @ dedup_first_seen lower (seen \<union> lower ` set xs) ys"
  by (induction xs arbitrary: seen) (auto simp: insert_absorb)

lemma dedup_first_seen_keys:
  "distinct (map lower (dedup_first_seen lower seen ps)) \<and>
   lower ` set (dedup_first_seen lower seen ps) \<inter> seen = {}"
proof (induction ps arbitrary: seen)
  case Nil
  show ?case by simp
next
  case (Cons p ps)
  from Cons.IH [of seen] Cons.IH [of "insert (lower p) seen"]
  show ?case by auto
qed



lemma merge_predictions_eq:
  assumes "0 \<le> limit"
  shows "merge_predictions lower dbs es limit =
     take (nat limit)
       (dedup_first_seen lower {} dbs @ dedup_first_seen lower (lower ` set dbs) es)"
  using assms
  by (simp add: merge_predictions_def py_slice_to_def add_db_predictions_eq
      add_search_predictions_fst)



text \<open>Two database matches with the same lower-cased form, whatever their letters and
  whatever the lower-casing: only the first is returned.\<close>

lemma merge_predictions_same_key:
  assumes "lower x = lower y"
  shows "merge_predictions lower [x, y] [] 5 = [x]"
  using assms by (simp add: merge_predictions_def py_slice_to_def)

section \<open>Properties of the predict endpoint\<close>

text \<open>
  Claim C2. The \<open>DatabaseManager\<close> class defines no \<open>get_matching_queries\<close>. So for every
  partial query of length at least 2, whatever the methods the class does define do and
  whatever the engine is, the database fetch of \<open>predict_queries\<close> raises AttributeError,
  the caller gets an HTTPException with status 500, and the only events are the entry log
  line, the start of the database fetch and the error log line: the engine is not asked
  and the merge is not run. \<open>SearchEngine\<close> defines no \<open>predict_queries\<close> either: that call
  raises AttributeError too, so that even with a database object that answers, the result
  is the merge of the database matches with no engine prediction.
\<close>

theorem predict_db_fetch_attribute_error:
  assumes "2 \<le> length partial_query"
  shows "predict_queries lower (db_manager m) eng partial_query limit =
           (Inl (HTTPException 500 (AttributeError ''DatabaseManager'' ''get_matching_queries'')),
            [LogInfo, DbFetch partial_query limit, LogError]) \<and>
         ''get_matching_queries'' \<notin> set DatabaseManager_attrs \<and>
         ''predict_queries'' \<notin> set SearchEngine_attrs \<and>
         invoke (search_engine m') ''predict_queries'' partial_query limit =
           Inl (AttributeError ''SearchEngine'' ''predict_queries'') \<and>
         (invoke db ''get_matching_queries'' partial_query limit = Inr dbs \<longrightarrow>
            fst (predict_queries lower db (search_engine m') partial_query limit) =
              Inr (merge_predictions lower dbs [] limit))"
proof -
  have db: "''get_matching_queries'' \<notin> set DatabaseManager_attrs"
    by (simp add: DatabaseManager_attrs_def)
  have en: "''predict_queries'' \<notin> set SearchEngine_attrs"
    by (simp add: SearchEngine_attrs_def)
  have inv_db: "invoke (db_manager m) ''get_matching_queries'' partial_query limit =
      Inl (AttributeError ''DatabaseManager'' ''get_matching_queries'')"
    using db by (simp add: invoke_def db_manager_def)
  have inv_en: "invoke (search_engine m') ''predict_queries'' partial_query limit =
      Inl (AttributeError ''SearchEngine'' ''predict_queries'')"
    using en by (simp add: invoke_def search_engine_def)
  have len: "\<not> length partial_query < 2" using assms by simp
  have first: "predict_queries lower (db_manager m) eng partial_query limit =
           (Inl (HTTPException 500 (AttributeError ''DatabaseManager'' ''get_matching_queries'')),
            [LogInfo, DbFetch partial_query limit, LogError])"
    unfolding predict_queries_def using len inv_db by simp
  have last: "invoke db ''get_matching_queries'' partial_query limit = Inr dbs \<longrightarrow>
            fst (predict_queries lower db (search_engine m') partial_query limit) =
              Inr (merge_predictions lower dbs [] limit)"
    unfolding predict_queries_def using len inv_en by simp
  from first db en inv_en last show ?thesis by simp
qed

theorem predict_db_fetch_attribute_error_witness:
  "2 \<le> length ''machine'' \<and>
   predict_queries ascii_lower (db_manager defined_methods) (search_engine defined_methods)
     ''machine'' 5 =
     (Inl (HTTPException 500 (AttributeError ''DatabaseManager'' ''get_matching_queries'')),
      [LogInfo, DbFetch ''machine'' 5, LogError]) \<and>
   fst (predict_queries ascii_lower
          (with_method (db_manager defined_methods) ''get_matching_queries''
             (Inr [''machine learning'']))
          (search_engine defined_methods) ''machine'' 5) = Inr [''machine learning'']"
proof -
  have len: "2 \<le> length ''machine''" by simp
  have inv: "invoke (with_method (db_manager defined_methods) ''get_matching_queries''
                (Inr [''machine learning''])) ''get_matching_queries'' ''machine'' 5 =
             Inr [''machine learning'']"
    by (simp add: invoke_def with_method_def)
  have run: "merge_predictions ascii_lower [''machine learning''] [] 5 = [''machine learning'']"
    by (simp add: merge_predictions_def py_slice_to_def)
  from predict_db_fetch_attribute_error [OF len, where lower = ascii_lower
      and m = defined_methods
      and eng = "search_engine defined_methods" and limit = 5 and m' = defined_methods
      and db = "with_method (db_manager defined_methods) ''get_matching_queries''
         (Inr [''machine learning''])" and dbs = "[''machine learning'']"]
  show ?thesis using len inv run by simp
qed

text \<open>
  Claim C4, as amended. For every limit that is not negative and all lists of database
  matches and engine predictions, the merge returns the first \<open>limit\<close> entries of the
  database matches followed by the engine predictions, deduplicated on the lower-cased
  string throughout: a database match is skipped, like an engine prediction, when its
  lower-cased form was already seen, and the first-seen variant keeps its casing. The
  result has at most \<open>limit\<close> entries with pairwise different lower-cased forms. All this
  holds for every lower-casing function. The last conjunct is the specification's example;
  it needs of the lower-casing only its values at the three strings of the example.
\<close>

theorem predict_merge_dedup_limit:
  assumes "0 \<le> limit"
  shows "merge_predictions lower dbs es limit =
           take (nat limit)
             (dedup_first_seen lower {} dbs @ dedup_first_seen lower (lower ` set dbs) es) \<and>
         merge_predictions lower dbs es limit =
           take (nat limit) (dedup_first_seen lower {} (dbs @ es)) \<and>
         int (length (merge_predictions lower dbs es limit)) \<le> limit \<and>
         distinct (map lower (merge_predictions lower dbs es limit)) \<and>
         (lower ''machine learning'' = ''machine learning'' \<and>
          lower ''machine vision'' = ''machine vision'' \<and>
          lower ''Machine Learning Basics'' = ''machine learning basics'' \<longrightarrow>
            merge_predictions lower [''machine learning'', ''machine vision'']
              [''Machine Learning Basics'', ''machine vision''] 5 =
              [''machine learning'', ''machine vision'', ''Machine Learning Basics''])"
proof -
  let ?all = "dedup_first_seen lower {} (dbs @ es)"
  have split: "?all = dedup_first_seen lower {} dbs @ dedup_first_seen lower (lower ` set dbs) es"
    by (simp add: dedup_first_seen_append)
  have eq: "merge_predictions lower dbs es limit = take (nat limit) ?all"
    using assms by (simp add: merge_predictions_eq split)
  have len: "int (length (merge_predictions lower dbs es limit)) \<le> limit"
    using assms by (simp add: eq)
  have "distinct (map lower ?all)"
    using dedup_first_seen_keys [of lower "{}" "dbs @ es"] by simp
  then have dist: "distinct (map lower (merge_predictions lower dbs es limit))"
    by (simp add: eq take_map [symmetric])
  have ex: "lower ''machine learning'' = ''machine learning'' \<and>
          lower ''machine vision'' = ''machine vision'' \<and>
          lower ''Machine Learning Basics'' = ''machine learning basics'' \<longrightarrow>
            merge_predictions lower [''machine learning'', ''machine vision'']
              [''Machine Learning Basics'', ''machine vision''] 5 =
              [''machine learning'', ''machine vision'', ''Machine Learning Basics'']"
    by (simp add: merge_predictions_def py_slice_to_def)
  have parts: "merge_predictions lower dbs es limit =
      take (nat limit)
        (dedup_first_seen lower {} dbs @ dedup_first_seen lower (lower ` set dbs) es)"
    by (simp only: eq split)
  from parts eq len dist ex show ?thesis by (intro conjI)
qed

text \<open>The example of the specification, run through the endpoint with a database object
  and an engine object that have the two methods and return the two lists. Its strings are
  ASCII, and \<open>ascii_lower\<close> has on them the values of \<open>str.lower()\<close>.\<close>

theorem predict_merge_dedup_limit_witness:
  "(0::int) \<le> 5 \<and>
   ascii_lower ''machine learning'' = ''machine learning'' \<and>
   ascii_lower ''machine vision'' = ''machine vision'' \<and>
   ascii_lower ''Machine Learning Basics'' = ''machine learning basics'' \<and>
   fst (predict_queries ascii_lower
          (with_method (db_manager defined_methods) ''get_matching_queries''
             (Inr [''machine learning'', ''machine vision'']))
          (with_method (search_engine defined_methods) ''predict_queries''
             (Inr [''Machine Learning Basics'', ''machine vision'']))
          ''machine'' 5) =
     Inr [''machine learning'', ''machine vision'', ''Machine Learning Basics'']"
proof -
  have nonneg: "(0::int) \<le> 5" by simp
  have folded: "ascii_lower ''machine learning'' = ''machine learning''"
    "ascii_lower ''machine vision'' = ''machine vision''"
    "ascii_lower ''Machine Learning Basics'' = ''machine learning basics''"
    by (simp_all add: ascii_lower_def ascii_lower_char_def)
  have merged: "merge_predictions ascii_lower [''machine learning'', ''machine vision'']
           [''Machine Learning Basics'', ''machine vision''] 5 =
           [''machine learning'', ''machine vision'', ''Machine Learning Basics'']"
    using predict_merge_dedup_limit [OF nonneg, where lower = ascii_lower] folded
    by blast
  show ?thesis
    using folded by (simp add: predict_queries_def invoke_def with_method_def merged)
qed

text \<open>
  Claim C4 as stated fails. With the database matches \<open>a\<close> and \<open>A\<close> the code returns only
  \<open>a\<close>: the loop over the database matches skips an entry whose lower-cased form was seen,
  where the claim appends every database match. And with limit \<open>-1\<close> the slice
  \<open>all_predictions[:-1]\<close> drops the last entry only, so that the result has one entry,
  where a list truncated to the limit has none.
\<close>

theorem predict_merge_counterexample:
  "merge_predictions ascii_lower [''a'', ''A''] [] 5 = [''a''] \<and>
   specified_merge ascii_lower [''a'', ''A''] [] 5 = [''a'', ''A''] \<and>
   merge_predictions ascii_lower [''a'', ''b''] [] (- 1) = [''a''] \<and>
   specified_merge ascii_lower [''a'', ''b''] [] (- 1) = []"
  by (simp add: merge_predictions_def specified_merge_def py_slice_to_def ascii_lower_def
      ascii_lower_char_def)

text \<open>
  Claim C5. For every partial query shorter than two characters and every limit,
  \<open>predict_queries\<close> returns the empty list, raises nothing, and starts no call to the
  database source or to the engine source: the only event is the log line written on entry.
\<close>

theorem predict_short_query_returns_empty:
  assumes "length partial_query < 2"
  shows "predict_queries lower db eng partial_query limit = (Inr [], [LogInfo]) \<and>
         filter is_fetch (snd (predict_queries lower db eng partial_query limit)) = []"
  using assms by (simp add: predict_queries_def)

theorem predict_short_query_returns_empty_witness:
  "length ''x'' < 2 \<and>
   predict_queries ascii_lower (db_manager defined_methods) (search_engine defined_methods)
     ''x'' 5 =
     (Inr [], [LogInfo])"
proof -
  have short: "length ''x'' < 2" by simp
  from predict_short_query_returns_empty [OF short] show ?thesis by simp
qed



section \<open>Properties of SearchEngine.search\<close>

lemma search_results_append:
  "search_results eng (xs @ ys) acc =
     (case search_results eng xs acc of Inl e \<Rightarrow> Inl e | Inr acc' \<Rightarrow> search_results eng ys acc')"
  by (induction eng xs acc rule: search_results.induct) (auto split: option.splits sum.splits)

lemma search_results_catalogued:
  assumes "fst ` set pairs \<subseteq> dom (chunk_mapping eng)"
    and "\<And>d. find_experts_by_domain eng d = Inr (experts_for d)"
  shows "search_results eng pairs acc =
           Inr (acc @ map (\<lambda>(idx, score).
                  \<lparr>metadata = the (chunk_mapping eng idx), similarity_score = score,
                   experts = take 3 (experts_for
                     (dict_get (the (chunk_mapping eng idx)) ''Domain'' '' ''))\<rparr>) pairs)"
  using assms(1)
proof (induction pairs arbitrary: acc)
  case Nil
  show ?case by simp
next
  case (Cons p pairs)
  obtain idx score where p: "p = (idx, score)" by (cases p)
  from Cons.prems p obtain md where md: "chunk_mapping eng idx = Some md" by auto
  from Cons.prems have rest: "fst ` set pairs \<subseteq> dom (chunk_mapping eng)" by simp
  show ?case
    using Cons.IH [OF rest] by (simp add: p md assms(2))
qed

lemma index_slots_within:
  assumes "k \<le> int (length ranked)" and "length dists = length ranked"
  shows "index_slots ranked dists far k = (take (nat k) ranked, take (nat k) dists)"
  using assms by (simp add: index_slots_def)

lemma small_engine_slots:
  "index_slots [1, 0] [3, 8 :: nat] 1000 2 = ([1, 0], [3, 8])"
  "index_slots [1, 0] [3, 8 :: nat] 1000 3 = ([1, 0, - 1], [3, 8, 1000])"
  by (simp_all add: index_slots_def)

lemma small_engine_search:
  "search small_engine ''malaria'' 2 =
     Inr [\<lparr>metadata = [''Title'' \<mapsto> ''Maize yields''], similarity_score = 3,
           experts = [''e5'']\<rparr>,
          \<lparr>metadata = [''Title'' \<mapsto> ''Malaria vaccines'', ''Domain'' \<mapsto> ''Health''],
           similarity_score = 8, experts = [''e1'', ''e2'', ''e3'']\<rparr>]"
  by (simp add: search_def small_engine_def small_engine_slots dict_get_def)

text \<open>
  When \<open>k\<close> exceeds the corpus size and the index fills the unused slots with ordinal \<open>-1\<close>,
  \<open>search\<close> looks that ordinal up in \<open>chunk_mapping\<close> like any other. With a mapping that
  has no key \<open>-1\<close> the call raises KeyError after the catalogued ordinals were processed.
\<close>

theorem search_raises_on_sentinel:
  assumes emb: "get_embedding eng query = Inr v"
    and idx: "index_search eng v k = Inr (index_slots ranked dists far k)"
    and len: "length dists = length ranked"
    and cat: "set ranked \<subseteq> dom (chunk_mapping eng)"
    and k: "int (length ranked) < k"
    and no: "chunk_mapping eng (- 1) = None"
    and ex: "\<And>d. find_experts_by_domain eng d = Inr (experts_for d)"
  shows "search eng query k = Inl (KeyError (- 1))"
proof -
  define n where "n = nat k - length ranked - 1"
  have n: "nat k - length ranked = Suc n" using k by (simp add: n_def)
  have slots: "index_slots ranked dists far k =
      (ranked @ (- 1) # replicate n (- 1), dists @ far # replicate n far)"
    using len n by (simp add: index_slots_def)
  have sub: "fst ` set (zip ranked dists) \<subseteq> dom (chunk_mapping eng)"
    using cat by (auto dest!: set_zip_leftD)
  have zipped: "zip (ranked @ (- 1) # replicate n (- 1)) (dists @ far # replicate n far) =
      zip ranked dists @ (- 1, far) # zip (replicate n (- 1)) (replicate n far)"
    using len by simp
  show ?thesis
    unfolding search_def
    using search_results_catalogued [OF sub ex, of "[]"] no
    by (simp add: emb idx slots zipped search_results_append)
qed

theorem search_raises_on_sentinel_witness:
  "int (length [1, 0 :: int]) < 3 \<and> chunk_mapping small_engine (- 1) = None \<and>
   search small_engine ''malaria'' 3 = Inl (KeyError (- 1)) \<and>
   search small_engine ''malaria'' 7 = Inl (KeyError (- 1))"
proof -
  let ?experts = "\<lambda>d. if d = ''Health'' then [''e1'', ''e2'', ''e3'', ''e4''] else [''e5'']"
  have emb: "get_embedding small_engine ''malaria'' = Inr ()"
    by (simp add: small_engine_def)
  have idx: "index_search small_engine () k = Inr (index_slots [1, 0] [3, 8] 1000 k)" for k
    by (simp add: small_engine_def)
  have len: "length [3, 8 :: nat] = length [1, 0 :: int]" by simp
  have cat: "set [1, 0] \<subseteq> dom (chunk_mapping small_engine)"
    by (simp add: small_engine_def)
  have no: "chunk_mapping small_engine (- 1) = None"
    by (simp add: small_engine_def)
  have ex: "\<And>d. find_experts_by_domain small_engine d = Inr (?experts d)"
    by (simp add: small_engine_def)
  have k3: "int (length [1, 0 :: int]) < 3" and k7: "int (length [1, 0 :: int]) < 7"
    by simp_all
  from search_raises_on_sentinel [OF emb idx len cat k3 no ex]
    search_raises_on_sentinel [OF emb idx len cat k7 no ex] k3 no
  show ?thesis by simp
qed

text \<open>
  Claim C1. The claim says that for \<open>k\<close> above the corpus size the sentinel ordinals are
  left out and fewer than \<open>k\<close> results come back. The code has no such filter: on a corpus
  of two chunks, \<open>search(query, 3)\<close> gets the ordinals \<open>1, 0, -1\<close> from the index and raises
  KeyError at \<open>chunk_mapping[-1]\<close>, so no list is returned at all.
\<close>

theorem search_sentinel_key_error:
  "search small_engine ''malaria'' 3 = Inl (KeyError (- 1))"
  by (simp add: search_def small_engine_def small_engine_slots dict_get_def)

text \<open>
  Claim C3. Let the index answer as \<open>index_slots\<close> says over a ranking \<open>ranked\<close> of the
  corpus, with pairwise different ordinals that are all keys of \<open>chunk_mapping\<close>, and let
  the embedding and the experts manager return. Then for every \<open>k\<close> up to the corpus size
  \<open>search\<close> returns a list of exactly \<open>k\<close> results; the i-th result carries the metadata of
  the i-th ordinal the index returned and its score, so the results are in the index's
  order and come from pairwise different ordinals; and each result carries the first three
  experts the manager returned for the chunk's \<open>Domain\<close> entry (\<open>' '\<close> when it has none),
  hence at most three.
\<close>

theorem search_returns_k_in_index_order:
  assumes emb: "get_embedding eng query = Inr v"
    and idx: "index_search eng v k = Inr (index_slots ranked dists far k)"
    and len: "length dists = length ranked"
    and dist: "distinct ranked"
    and cat: "set ranked \<subseteq> dom (chunk_mapping eng)"
    and k: "k \<le> int (length ranked)"
    and ex: "\<And>d. find_experts_by_domain eng d = Inr (experts_for d)"
  shows "\<exists>rs. search eng query k = Inr rs \<and> length rs = nat k \<and>
           map (\<lambda>r. Some (metadata r)) rs = map (chunk_mapping eng) (take (nat k) ranked) \<and>
           distinct (take (nat k) ranked) \<and>
           map similarity_score rs = take (nat k) dists \<and>
           (\<forall>r \<in> set rs. experts r =
               take 3 (experts_for (dict_get (metadata r) ''Domain'' '' '')) \<and>
               length (experts r) \<le> 3)"
proof -
  let ?I = "take (nat k) ranked" and ?D = "take (nat k) dists"
  let ?build = "\<lambda>(idx, score).
       \<lparr>metadata = the (chunk_mapping eng idx), similarity_score = score,
        experts = take 3 (experts_for
          (dict_get (the (chunk_mapping eng idx)) ''Domain'' '' ''))\<rparr>"
  let ?rs = "map ?build (zip ?I ?D)"
  have lenI: "length ?I = nat k" using k by simp
  have lenD: "length ?D = nat k" using k len by simp
  have sub: "fst ` set (zip ?I ?D) \<subseteq> dom (chunk_mapping eng)"
    using cat by (auto dest!: set_zip_leftD in_set_takeD)
  have run: "search eng query k = Inr ?rs"
    using search_results_catalogued [OF sub ex, of "[]"]
    by (simp add: search_def emb idx index_slots_within [OF k len])
  have n: "length ?rs = nat k" using lenI lenD by simp
  have md: "map (\<lambda>r. Some (metadata r)) ?rs = map (chunk_mapping eng) ?I"
  proof (rule nth_equalityI)
    show "length (map (\<lambda>r. Some (metadata r)) ?rs) = length (map (chunk_mapping eng) ?I)"
      using lenI lenD by simp
  next
    fix i assume "i < length (map (\<lambda>r. Some (metadata r)) ?rs)"
    then have i: "i < nat k" using lenI lenD by simp
    then have "?I ! i \<in> set ?I" using lenI by (metis nth_mem)
    then have "?I ! i \<in> dom (chunk_mapping eng)" using cat by (auto dest: in_set_takeD)
    then show "map (\<lambda>r. Some (metadata r)) ?rs ! i = map (chunk_mapping eng) ?I ! i"
      using i lenI lenD by auto
  qed
  have sc: "map similarity_score ?rs = ?D"
    using lenI lenD by (auto intro!: nth_equalityI)
  have exs: "\<forall>r \<in> set ?rs. experts r =
               take 3 (experts_for (dict_get (metadata r) ''Domain'' '' '')) \<and>
               length (experts r) \<le> 3"
    by auto
  from run n md sc exs dist show ?thesis by (intro exI [of _ ?rs]) simp
qed

theorem search_returns_k_in_index_order_witness:
  "get_embedding small_engine ''malaria'' = Inr () \<and>
   index_search small_engine () 2 = Inr (index_slots [1, 0] [3, 8] 1000 2) \<and>
   distinct [1, 0 :: int] \<and>
   set [1, 0] \<subseteq> dom (chunk_mapping small_engine) \<and>
   (2 :: int) \<le> int (length [1, 0 :: int]) \<and>
   (\<exists>rs. search small_engine ''malaria'' 2 = Inr rs \<and> length rs = 2 \<and>
      map (\<lambda>r. Some (metadata r)) rs =
        [chunk_mapping small_engine 1, chunk_mapping small_engine 0] \<and>
      map similarity_score rs = [3, 8]) \<and>
   search small_engine ''malaria'' 2 =
     Inr [\<lparr>metadata = [''Title'' \<mapsto> ''Maize yields''], similarity_score = 3,
           experts = [''e5'']\<rparr>,
          \<lparr>metadata = [''Title'' \<mapsto> ''Malaria vaccines'', ''Domain'' \<mapsto> ''Health''],
           similarity_score = 8, experts = [''e1'', ''e2'', ''e3'']\<rparr>]"
proof -
  let ?experts = "\<lambda>d. if d = ''Health'' then [''e1'', ''e2'', ''e3'', ''e4''] else [''e5'']"
  have emb: "get_embedding small_engine ''malaria'' = Inr ()"
    by (simp add: small_engine_def)
  have idx: "index_search small_engine () 2 = Inr (index_slots [1, 0] [3, 8] 1000 2)"
    by (simp add: small_engine_def)
  have len: "length [3, 8 :: nat] = length [1, 0 :: int]" by simp
  have dist: "distinct [1, 0 :: int]" by simp
  have cat: "set [1, 0] \<subseteq> dom (chunk_mapping small_engine)"
    by (simp add: small_engine_def)
  have k: "(2 :: int) \<le> int (length [1, 0 :: int])" by simp
  have ex: "\<And>d. find_experts_by_domain small_engine d = Inr (?experts d)"
    by (simp add: small_engine_def)
  from search_returns_k_in_index_order [OF emb idx len dist cat k ex]
  obtain rs where rs: "search small_engine ''malaria'' 2 = Inr rs" "length rs = nat 2"
    "map (\<lambda>r. Some (metadata r)) rs = map (chunk_mapping small_engine) (take (nat 2) [1, 0])"
    "map similarity_score rs = take (nat 2) [3, 8]"
    by blast
  then have "\<exists>rs. search small_engine ''malaria'' 2 = Inr rs \<and> length rs = 2 \<and>
      map (\<lambda>r. Some (metadata r)) rs =
        [chunk_mapping small_engine 1, chunk_mapping small_engine 0] \<and>
      map similarity_score rs = [3, 8]"
    by (intro exI [of _ rs]) simp
  with emb idx dist cat k small_engine_search show ?thesis by blast
qed

section \<open>Properties of the database manager and of the search endpoint\<close>

lemma execute_ok:
  assumes "fault stmt = None"
  shows "execute fault now stmt s =
     (Inr (case fst (run_statement now stmt (snapshot s)) of
             Some fetched \<Rightarrow> fetched | None \<Rightarrow> []),
      s\<lparr>committed := snd (run_statement now stmt (snapshot s)), open_txn := None\<rparr>)"
  using assms
  by (simp add: execute_def cur_execute_def commit_def snapshot_def split: prod.splits)

lemma execute_fails:
  assumes "fault stmt = Some e"
  shows "execute fault now stmt s = (Inl e, log_event LogError (rollback s))"
  using assms by (simp add: execute_def cur_execute_def)

lemma snapshot_after_commit [simp]:
  "snapshot (s\<lparr>committed := t, open_txn := None\<rparr>) = t"
  by (simp add: snapshot_def)

lemma record_click_ok:
  assumes "expert_id \<noteq> []"
    and "fault (UpdateSearchLogClicked search_id) = None"
    and "fault (UpdateExpertSearchClicked search_id expert_id) = None"
  shows "record_click fault now search_id (Some expert_id) s =
     (Inr (),
      s\<lparr>committed := (snapshot s)
           \<lparr>search_logs :=
              map (\<lambda>r. if sl_id r = search_id then r\<lparr>sl_clicked := True\<rparr> else r)
                (search_logs (snapshot s)),
            expert_searches :=
              map (\<lambda>r. if es_search_id r = search_id \<and> es_expert_id r = expert_id
                       then r\<lparr>es_clicked := True, es_click_timestamp := Some now\<rparr> else r)
                (expert_searches (snapshot s))\<rparr>,
        open_txn := None\<rparr>)"
  using assms by (simp add: record_click_def execute_ok)

lemma click_again:
  "map (\<lambda>r. if es_search_id r = search_id \<and> es_expert_id r = expert_id
            then r\<lparr>es_clicked := True, es_click_timestamp := Some t2\<rparr> else r)
     (map (\<lambda>r. if es_search_id r = search_id \<and> es_expert_id r = expert_id
               then r\<lparr>es_clicked := True, es_click_timestamp := Some t1\<rparr> else r) rows) =
   map (\<lambda>r. if es_search_id r = search_id \<and> es_expert_id r = expert_id
            then r\<lparr>es_clicked := True, es_click_timestamp := Some t2\<rparr> else r) rows"
  by (induction rows) simp_all

lemma add_query_fails:
  assumes "fault (InsertQueryHistory query result_count search_type user_id) = Some e"
  shows "add_query fault now query result_count search_type user_id s =
     (Inl e, log_event LogError (log_event LogError (rollback s)))"
  using assms by (simp add: add_query_def execute_fails)

lemma search_endpoint_response:
  "fst (search_endpoint eng fault now query limit s) =
     (case search eng query limit of
        Inl e \<Rightarrow> Inl (HTTPException 500 e)
      | Inr results \<Rightarrow> Inr (map format_result results))"
  by (simp add: search_endpoint_def split: sum.splits prod.splits)

text \<open>
  Claim C7. The response of the search endpoint does not depend on the database: it is the
  same for every behaviour of the server, every time and every database state. When the
  engine's search returns \<open>results\<close> and the insert of \<open>add_query\<close> fails, \<open>add_query\<close>
  raises, the endpoint catches the exception and logs an error, and the response is the
  formatted result list, the same list a run with a working insert returns; nothing is
  committed by the failed call.
\<close>

theorem search_response_ignores_add_query_failure:
  assumes found: "search eng query limit = Inr results"
    and fails: "fault (InsertQueryHistory query (int (length results)) ''semantic'' None) = Some e"
    and works: "fault' (InsertQueryHistory query (int (length results)) ''semantic'' None) = None"
  shows "fst (search_endpoint eng fault now query limit s) =
           fst (search_endpoint eng any_fault any_now query limit any_s) \<and>
         fst (add_query fault now query (int (length results)) ''semantic'' None
                (log_event LogInfo s)) = Inl e \<and>
         fst (search_endpoint eng fault now query limit s) = Inr (map format_result results) \<and>
         fst (search_endpoint eng fault' now query limit s) = Inr (map format_result results) \<and>
         last (logged (snd (search_endpoint eng fault now query limit s))) = LogError \<and>
         committed (snd (search_endpoint eng fault now query limit s)) = committed s"
  using assms
  by (simp add: search_endpoint_response add_query_fails)
     (simp add: search_endpoint_def add_query_fails log_event_def rollback_def)

theorem search_response_ignores_add_query_failure_witness:
  "insert_fault (InsertQueryHistory ''malaria'' 2 ''semantic'' None) =
     Some (DatabaseError ''connection lost'') \<and>
   no_fault (InsertQueryHistory ''malaria'' 2 ''semantic'' None) = None \<and>
   fst (add_query insert_fault 5 ''malaria'' 2 ''semantic'' None
          (log_event LogInfo analytics_state)) = Inl (DatabaseError ''connection lost'') \<and>
   fst (search_endpoint small_engine insert_fault 5 ''malaria'' 2 analytics_state) =
     fst (search_endpoint small_engine no_fault 5 ''malaria'' 2 analytics_state) \<and>
   fst (search_endpoint small_engine insert_fault 5 ''malaria'' 2 analytics_state) =
     Inr [[(''title'', Str []), (''abstract'', Str []), (''summary'', Str []),
           (''tags'', Str []), (''authors'', Str []), (''similarity_score'', Num 3)],
          [(''title'', Str []), (''abstract'', Str []), (''summary'', Str []),
           (''tags'', Str []), (''authors'', Str []), (''similarity_score'', Num 8)]]"
proof -
  let ?results = "[\<lparr>metadata = [''Title'' \<mapsto> ''Maize yields''], similarity_score = 3 :: nat,
           experts = [''e5'']\<rparr>,
          \<lparr>metadata = [''Title'' \<mapsto> ''Malaria vaccines'', ''Domain'' \<mapsto> ''Health''],
           similarity_score = 8, experts = [''e1'', ''e2'', ''e3'']\<rparr>]"
  have found: "search small_engine ''malaria'' 2 = Inr ?results"
    by (rule small_engine_search)
  have fails: "insert_fault (InsertQueryHistory ''malaria'' (int (length ?results))
      ''semantic'' None) = Some (DatabaseError ''connection lost'')"
    by simp
  have works: "no_fault (InsertQueryHistory ''malaria'' (int (length ?results))
      ''semantic'' None) = None"
    by (simp add: no_fault_def)
  have formatted: "map format_result ?results =
      [[(''title'', Str []), (''abstract'', Str []), (''summary'', Str []),
           (''tags'', Str []), (''authors'', Str []), (''similarity_score'', Num 3)],
          [(''title'', Str []), (''abstract'', Str []), (''summary'', Str []),
           (''tags'', Str []), (''authors'', Str []), (''similarity_score'', Num 8)]]"
    by (simp add: format_result_def dict_get_def)
  from search_response_ignores_add_query_failure [where eng = small_engine
      and query = "''malaria''" and limit = 2 and results = ?results and fault = insert_fault
      and fault' = no_fault and e = "DatabaseError ''connection lost''" and now = 5
      and s = analytics_state, OF found fails works]
  show ?thesis
    using fails works formatted by simp
qed

text \<open>
  Claim C8, as amended. For every search id and every expert id that is not the empty
  string, a call of \<open>record_click\<close> whose two statements run sets \<open>clicked\<close> and overwrites
  \<open>click_timestamp\<close> with the time of the call in every attribution row of that search and
  expert, and leaves the other rows as they are. After two such calls in sequence, at
  times \<open>t1\<close> and \<open>t2\<close>, the attribution rows are those of a single call at \<open>t2\<close>: \<open>clicked\<close>
  is true and \<open>click_timestamp\<close> is the time of the second call. \<open>snapshot s\<close> are the tables
  the connection sees when the first call starts, the committed ones when no transaction
  is open.
\<close>

theorem record_click_last_write_wins:
  assumes given: "expert_id \<noteq> []"
    and ok1: "fault1 (UpdateSearchLogClicked search_id) = None"
             "fault1 (UpdateExpertSearchClicked search_id expert_id) = None"
    and ok2: "fault2 (UpdateSearchLogClicked search_id) = None"
             "fault2 (UpdateExpertSearchClicked search_id expert_id) = None"
    and first: "record_click fault1 t1 search_id (Some expert_id) s = (r1, s1)"
    and second: "record_click fault2 t2 search_id (Some expert_id) s1 = (r2, s2)"
  shows "r1 = Inr () \<and> r2 = Inr () \<and>
         expert_searches (committed s1) =
           map (\<lambda>r. if es_search_id r = search_id \<and> es_expert_id r = expert_id
                    then r\<lparr>es_clicked := True, es_click_timestamp := Some t1\<rparr> else r)
             (expert_searches (snapshot s)) \<and>
         expert_searches (committed s2) =
           map (\<lambda>r. if es_search_id r = search_id \<and> es_expert_id r = expert_id
                    then r\<lparr>es_clicked := True, es_click_timestamp := Some t2\<rparr> else r)
             (expert_searches (snapshot s)) \<and>
         (\<forall>r \<in> set (expert_searches (committed s2)).
            es_search_id r = search_id \<and> es_expert_id r = expert_id \<longrightarrow>
              es_clicked r \<and> es_click_timestamp r = Some t2)"
proof -
  let ?click = "\<lambda>t r. if es_search_id r = search_id \<and> es_expert_id r = expert_id
                    then r\<lparr>es_clicked := True, es_click_timestamp := Some t\<rparr> else r"
  from first have r1_eq: "r1 = fst (record_click fault1 t1 search_id (Some expert_id) s)"
    and s1_eq: "s1 = snd (record_click fault1 t1 search_id (Some expert_id) s)"
    by simp_all
  from second have r2_eq: "r2 = fst (record_click fault2 t2 search_id (Some expert_id) s1)"
    and s2_eq: "s2 = snd (record_click fault2 t2 search_id (Some expert_id) s1)"
    by simp_all
  have r1: "r1 = Inr ()"
    unfolding r1_eq by (simp add: record_click_ok [OF given ok1])
  have r2: "r2 = Inr ()"
    unfolding r2_eq by (simp add: record_click_ok [OF given ok2])
  have es1: "expert_searches (committed s1) = map (?click t1) (expert_searches (snapshot s))"
    unfolding s1_eq by (simp add: record_click_ok [OF given ok1])
  have "open_txn s1 = None"
    unfolding s1_eq by (simp add: record_click_ok [OF given ok1])
  then have snap1: "snapshot s1 = committed s1" by (simp add: snapshot_def)
  have "expert_searches (committed s2) = map (?click t2) (expert_searches (snapshot s1))"
    unfolding s2_eq by (simp add: record_click_ok [OF given ok2])
  then have es2: "expert_searches (committed s2) =
      map (?click t2) (expert_searches (snapshot s))"
    by (simp only: snap1 es1 click_again)
  have all: "\<forall>r \<in> set (expert_searches (committed s2)).
            es_search_id r = search_id \<and> es_expert_id r = expert_id \<longrightarrow>
              es_clicked r \<and> es_click_timestamp r = Some t2"
  proof
    fix r assume "r \<in> set (expert_searches (committed s2))"
    then have "r \<in> ?click t2 ` set (expert_searches (snapshot s))"
      by (simp only: es2 set_map)
    then obtain r0 where r: "r = ?click t2 r0" by (rule imageE)
    show "es_search_id r = search_id \<and> es_expert_id r = expert_id \<longrightarrow>
              es_clicked r \<and> es_click_timestamp r = Some t2"
      by (cases "es_search_id r0 = search_id \<and> es_expert_id r0 = expert_id") (auto simp: r)
  qed
  from r1 r2 es1 es2 all show ?thesis by (intro conjI)
qed

theorem record_click_last_write_wins_witness:
  "''e1'' \<noteq> [] \<and>
   no_fault (UpdateSearchLogClicked 1) = None \<and>
   no_fault (UpdateExpertSearchClicked 1 ''e1'') = None \<and>
   fst (record_click no_fault 9 1 (Some ''e1'')
          (snd (record_click no_fault 5 1 (Some ''e1'') analytics_state))) = Inr () \<and>
   expert_searches (committed (snd (record_click no_fault 9 1 (Some ''e1'')
          (snd (record_click no_fault 5 1 (Some ''e1'') analytics_state))))) =
     [\<lparr>es_search_id = 1, es_expert_id = ''e1'', es_rank_position = 0,
       es_clicked = True, es_click_timestamp = Some 9\<rparr>,
      \<lparr>es_search_id = 1, es_expert_id = [], es_rank_position = 1,
       es_clicked = False, es_click_timestamp = None\<rparr>]"
proof -
  let ?first = "record_click no_fault 5 1 (Some ''e1'') analytics_state"
  let ?second = "record_click no_fault 9 1 (Some ''e1'') (snd ?first)"
  have given: "''e1'' \<noteq> []" by simp
  have ok: "no_fault (UpdateSearchLogClicked 1) = None"
    "no_fault (UpdateExpertSearchClicked 1 ''e1'') = None"
    by (simp_all add: no_fault_def)
  have first: "?first = (fst ?first, snd ?first)" by simp
  have second: "?second = (fst ?second, snd ?second)" by simp
  have start: "expert_searches (snapshot analytics_state) =
     [\<lparr>es_search_id = 1, es_expert_id = ''e1'', es_rank_position = 0,
       es_clicked = False, es_click_timestamp = None\<rparr>,
      \<lparr>es_search_id = 1, es_expert_id = [], es_rank_position = 1,
       es_clicked = False, es_click_timestamp = None\<rparr>]"
    by (simp add: snapshot_def analytics_state_def)
  from record_click_last_write_wins [OF given ok ok first second]
  have "fst ?second = Inr ()" and "expert_searches (committed (snd ?second)) =
     map (\<lambda>r. if es_search_id r = 1 \<and> es_expert_id r = ''e1''
              then r\<lparr>es_clicked := True, es_click_timestamp := Some 9\<rparr> else r)
       (expert_searches (snapshot analytics_state))"
    by blast+
  then show ?thesis using given ok by (simp add: start)
qed

text \<open>
  Claim C8 as stated fails for the empty string as expert id: \<open>if expert_id:\<close> is false for
  it, the update of \<open>expert_searches\<close> is not run, and the attribution row of search 1 with
  that expert id stays unclicked, although the call returns.
\<close>

theorem record_click_empty_expert_id_counterexample:
  "fst (record_click no_fault 5 1 (Some []) analytics_state) = Inr () \<and>
   expert_searches (committed (snd (record_click no_fault 5 1 (Some []) analytics_state))) =
     [\<lparr>es_search_id = 1, es_expert_id = ''e1'', es_rank_position = 0,
       es_clicked = False, es_click_timestamp = None\<rparr>,
      \<lparr>es_search_id = 1, es_expert_id = [], es_rank_position = 1,
       es_clicked = False, es_click_timestamp = None\<rparr>]"
  by (simp add: record_click_def execute_ok no_fault_def analytics_state_def snapshot_def)

text \<open>
  Claim C10. \<open>record_click\<close> is not atomic over its two updates. When the update of
  \<open>search_logs\<close> runs and the update of \<open>expert_searches\<close> fails with \<open>e\<close>, the call raises
  \<open>e\<close>; the rollback undoes nothing of the first update, which was committed by its own
  \<open>execute\<close>: in the committed tables the search row has \<open>clicked\<close> set, and the attribution
  rows are unchanged.
\<close>

theorem record_click_not_atomic:
  assumes "truthy expert_id"
    and "fault (UpdateSearchLogClicked search_id) = None"
    and "fault (UpdateExpertSearchClicked search_id (the expert_id)) = Some e"
  shows "fst (record_click fault now search_id expert_id s) = Inl e \<and>
         search_logs (committed (snd (record_click fault now search_id expert_id s))) =
           map (\<lambda>r. if sl_id r = search_id then r\<lparr>sl_clicked := True\<rparr> else r)
             (search_logs (snapshot s)) \<and>
         expert_searches (committed (snd (record_click fault now search_id expert_id s))) =
           expert_searches (snapshot s) \<and>
         open_txn (snd (record_click fault now search_id expert_id s)) = None"
  using assms
  by (simp add: record_click_def execute_ok execute_fails rollback_def log_event_def)

theorem record_click_not_atomic_witness:
  "truthy (Some ''e1'') \<and>
   attribution_fault (UpdateSearchLogClicked 1) = None \<and>
   attribution_fault (UpdateExpertSearchClicked 1 ''e1'') =
     Some (DatabaseError ''deadlock detected'') \<and>
   fst (record_click attribution_fault 5 1 (Some ''e1'') analytics_state) =
     Inl (DatabaseError ''deadlock detected'') \<and>
   search_logs (committed (snd
       (record_click attribution_fault 5 1 (Some ''e1'') analytics_state))) =
     [\<lparr>sl_id = 1, sl_clicked = True\<rparr>, \<lparr>sl_id = 2, sl_clicked = False\<rparr>] \<and>
   expert_searches (committed (snd
       (record_click attribution_fault 5 1 (Some ''e1'') analytics_state))) =
     expert_searches (committed analytics_state)"
proof -
  have given: "truthy (Some ''e1'')" by simp
  have ok: "attribution_fault (UpdateSearchLogClicked 1) = None" by simp
  have fails: "attribution_fault (UpdateExpertSearchClicked 1 (the (Some ''e1''))) =
     Some (DatabaseError ''deadlock detected'')" by simp
  have start: "snapshot analytics_state = committed analytics_state"
    by (simp add: snapshot_def analytics_state_def)
  have logs: "search_logs (committed analytics_state) =
     [\<lparr>sl_id = 1, sl_clicked = False\<rparr>, \<lparr>sl_id = 2, sl_clicked = False\<rparr>]"
    by (simp add: analytics_state_def)
  from record_click_not_atomic [OF given ok fails, of 5 analytics_state]
  show ?thesis using given ok fails by (simp add: start logs)
qed

text \<open>
  Two calls of \<open>update_search_session\<close> in sequence, each with a statement that runs, add
  2 to \<open>query_count\<close> of the session's row and leave the count of every other row.
\<close>

lemma update_search_session_ok:
  assumes "fault (UpdateSearchSession (if successful then 1 else 0) session_id) = None"
  shows "update_search_session fault now session_id successful s =
     (Inr (),
      s\<lparr>committed := snd (run_statement now
           (UpdateSearchSession (if successful then 1 else 0) session_id) (snapshot s)),
        open_txn := None\<rparr>)"
  using assms by (simp add: update_search_session_def execute_ok)

theorem update_search_session_twice:
  assumes "fault_a (UpdateSearchSession (if ok_a then 1 else 0) session_id) = None"
    and "fault_b (UpdateSearchSession (if ok_b then 1 else 0) session_id) = None"
  shows "map ss_query_count (search_sessions (committed (snd
           (update_search_session fault_b time_b session_id ok_b
              (snd (update_search_session fault_a time_a session_id ok_a s)))))) =
         map (\<lambda>r. if ss_id r = session_id then ss_query_count r + 2 else ss_query_count r)
           (search_sessions (snapshot s))"
proof -
  have "map ss_query_count
          (map (\<lambda>r. if ss_id r = session_id
                    then r\<lparr>ss_query_count := ss_query_count r + 1,
                           ss_successful_searches := ss_successful_searches r + b,
                           ss_end_timestamp := Some time_b\<rparr> else r)
             (map (\<lambda>r. if ss_id r = session_id
                       then r\<lparr>ss_query_count := ss_query_count r + 1,
                              ss_successful_searches := ss_successful_searches r + a,
                              ss_end_timestamp := Some time_a\<rparr> else r) rows)) =
        map (\<lambda>r. if ss_id r = session_id then ss_query_count r + 2 else ss_query_count r) rows"
    for a b rows
    by (induction rows) simp_all
  then show ?thesis
    by (simp add: update_search_session_ok [where fault = fault_a and successful = ok_a, OF assms(1)]
          update_search_session_ok [where fault = fault_b and successful = ok_b, OF assms(2)])
qed

theorem update_search_session_twice_witness:
  "no_fault (UpdateSearchSession 1 1) = None \<and>
   map ss_query_count (search_sessions (committed (snd
       (update_search_session no_fault 9 1 True
          (snd (update_search_session no_fault 5 1 True analytics_state)))))) = [2]"
proof -
  have ok: "no_fault (UpdateSearchSession (if True then 1 else 0) 1) = None"
    by (simp add: no_fault_def)
  have start: "search_sessions (snapshot analytics_state) =
     [\<lparr>ss_id = 1, ss_query_count = 0, ss_successful_searches = 0, ss_end_timestamp = None\<rparr>]"
    by (simp add: snapshot_def analytics_state_def)
  from update_search_session_twice [where fault_a = no_fault and fault_b = no_fault
      and ok_a = True and ok_b = True and session_id = 1 and time_a = 5 and time_b = 9
      and s = analytics_state, OF ok ok]
  show ?thesis using ok by (simp add: start)
qed

end
